theory Spec2Isabelle
  imports Complex_Main "HOL-Library.Word" "HOL-Library.Log_Nat" "HOL-Library.Sublist"
begin

unbundle bit_operations_syntax

section \<open>Kokoro TTS HTTP service (services/kokoro/server.py)\<close>

text \<open>
  The service is one Flask module: three module constants (\<open>DEFAULT_SPEED\<close>,
  \<open>DEFAULT_VOICE\<close>, \<open>VOICE_MAP\<close>) and three request handlers (\<open>health\<close>,
  \<open>synthesize\<close>, \<open>voices\<close>). The handlers are embedded as functions from the
  parsed request to the response. What the module calls but does not define (the Kokoro
  engine, Python's \<open>float\<close> and \<open>str\<close> on text, the out-of-range behaviour of
  NumPy's integer cast) is taken as a parameter, the record \<open>env\<close>.
\<close>

subsection \<open>Python values\<close>

text \<open>
  A Python \<open>float\<close> (IEEE binary64): a finite value by the real number it denotes, the
  two infinities, or NaN.
\<close>

datatype pyfloat = Finite real | Inf bool | NaN

text \<open>
  What \<open>request.get_json()\<close> can return: \<open>None\<close>, a bool, an int (unbounded), a
  float, a str, a list or a dict. A dict is an association list read by \<open>map_of\<close>.
\<close>

datatype json =
    JNull
  | JBool bool
  | JInt int
  | JFloat pyfloat
  | JStr string
  | JArr "json list"
  | JObj "(string \<times> json) list"

text \<open>
  The exceptions of the handler's \<open>try\<close> body. \<open>Raised m\<close> is an exception raised
  by a collaborator (Flask's \<open>get_json\<close>, the engine) whose \<open>str\<close> is \<open>m\<close>; the
  others are raised by the interpreter and the standard library.
\<close>

datatype pyerr =
    TypeError
  | KeyError
  | AttributeError
  | ValueError
  | OverflowError
  | ZeroDivisionError
  | WaveError
  | StructError
  | Raised string

text \<open>Truth value of an object, as \<open>not data\<close> tests it.\<close>

fun truthy :: "json \<Rightarrow> bool" where
  "truthy JNull = False"
| "truthy (JBool b) = b"
| "truthy (JInt n) = (n \<noteq> 0)"
| "truthy (JFloat f) = (f \<noteq> Finite 0)"
| "truthy (JStr s) = (s \<noteq> [])"
| "truthy (JArr xs) = (xs \<noteq> [])"
| "truthy (JObj kvs) = (kvs \<noteq> [])"

text \<open>
  \<open>k in data\<close> for a str \<open>k\<close>: key membership in a dict, element membership in a
  list, substring test in a str, \<open>TypeError\<close> on every other object.
\<close>

fun contains :: "string \<Rightarrow> json \<Rightarrow> pyerr + bool" where
  "contains k (JObj kvs) = Inr (map_of kvs k \<noteq> None)"
| "contains k (JArr xs) = Inr (List.member xs (JStr k))"
| "contains k (JStr s) = Inr (sublist k s)"
| "contains k JNull = Inl TypeError"
| "contains k (JBool b) = Inl TypeError"
| "contains k (JInt n) = Inl TypeError"
| "contains k (JFloat f) = Inl TypeError"

text \<open>\<open>data[k]\<close> for a str \<open>k\<close>: only a dict can be indexed by a str.\<close>

fun getitem :: "json \<Rightarrow> string \<Rightarrow> pyerr + json" where
  "getitem (JObj kvs) k = (case map_of kvs k of None \<Rightarrow> Inl KeyError | Some v \<Rightarrow> Inr v)"
| "getitem (JArr xs) k = Inl TypeError"
| "getitem (JStr s) k = Inl TypeError"
| "getitem JNull k = Inl TypeError"
| "getitem (JBool b) k = Inl TypeError"
| "getitem (JInt n) k = Inl TypeError"
| "getitem (JFloat f) k = Inl TypeError"

text \<open>\<open>data.get(k, default)\<close>: a method of dict only.\<close>

fun get :: "json \<Rightarrow> string \<Rightarrow> json \<Rightarrow> pyerr + json" where
  "get (JObj kvs) k dflt = (case map_of kvs k of None \<Rightarrow> Inr dflt | Some v \<Rightarrow> Inr v)"
| "get (JArr xs) k dflt = Inl AttributeError"
| "get (JStr s) k dflt = Inl AttributeError"
| "get JNull k dflt = Inl AttributeError"
| "get (JBool b) k dflt = Inl AttributeError"
| "get (JInt n) k dflt = Inl AttributeError"
| "get (JFloat f) k dflt = Inl AttributeError"

subsection \<open>IEEE 754 rounding\<close>

text \<open>Round to the nearest integer, ties to even.\<close>

definition round_half_even :: "real \<Rightarrow> int" where
  "round_half_even x =
     (let f = \<lfloor>x\<rfloor>; d = x - of_int f
      in if d < 1 / 2 then f else if 1 / 2 < d then f + 1 else if even f then f else f + 1)"

definition pow2 :: "int \<Rightarrow> real" where
  "pow2 k = (if 0 \<le> k then 2 ^ nat k else 1 / 2 ^ nat (- k))"

text \<open>
  The exponent of the unit in the last place of \<open>x\<close> in a binary format with \<open>p\<close>
  significant bits whose least subnormal is \<open>2 ^ (- d)\<close>: for
  \<open>2 ^ e \<le> \<bar>x\<bar> < 2 ^ (e + 1)\<close> it is \<open>e - (p - 1)\<close>, and never below \<open>- d\<close>.
\<close>

definition ulp_exponent :: "nat \<Rightarrow> nat \<Rightarrow> real \<Rightarrow> int" where
  "ulp_exponent p d x = max (bitlen \<lfloor>\<bar>x\<bar> * 2 ^ d\<rfloor> - int (d + p)) (- int d)"

text \<open>
  Round-to-nearest-even of a real into that format, for results in the finite range.
\<close>

definition ieee_round :: "nat \<Rightarrow> nat \<Rightarrow> real \<Rightarrow> real" where
  "ieee_round p d x =
     (let u = pow2 (ulp_exponent p d x) in of_int (round_half_even (x / u)) * u)"

text \<open>binary32 (NumPy's \<open>float32\<close>) and binary64 (Python's \<open>float\<close>).\<close>

definition float32 :: "real \<Rightarrow> real" where
  "float32 x = ieee_round 24 149 x"

definition float64 :: "real \<Rightarrow> real" where
  "float64 x = ieee_round 53 1074 x"

text \<open>Truncation towards zero, the rule of a C cast from floating point to integer.\<close>

definition trunc :: "real \<Rightarrow> int" where
  "trunc x = (if 0 \<le> x then \<lfloor>x\<rfloor> else \<lceil>x\<rceil>)"

subsection \<open>Collaborators\<close>

text \<open>
  One engine call: the arguments \<open>text\<close>, \<open>voice\<close> and \<open>speed\<close> of
  \<open>kokoro.create\<close>.
\<close>

type_synonym engine_call = "json \<times> string \<times> pyfloat"

text \<open>
  \<^item> \<open>kokoro_create\<close>: the engine, \<open>kokoro.create(text, voice=..., speed=...)\<close>. It
    returns the float32 samples (finite, by the reals they denote) and the sample rate,
    or raises an exception whose \<open>str\<close> is the \<open>Inl\<close> value.
  \<^item> \<open>float_of_str\<close>: Python's \<open>float\<close> on a str, \<open>None\<close> where it raises
    \<open>ValueError\<close>.
  \<^item> \<open>str_float\<close>: Python's \<open>str\<close> on a float.
  \<^item> \<open>format_value\<close>: the text an f-string gives for an object that is not a str.
  \<^item> \<open>exn_text\<close>: \<open>str(e)\<close> for an exception raised by the interpreter or the
    standard library.
  \<^item> \<open>cast_oob\<close>: what \<open>astype(np.int16)\<close> yields for a float32 outside the range
    of a 16-bit integer, which C leaves undefined and the platform decides.
\<close>

record env =
  kokoro_create :: "json \<Rightarrow> string \<Rightarrow> pyfloat \<Rightarrow> string + (real list \<times> int)"
  float_of_str :: "string \<Rightarrow> pyfloat option"
  str_float :: "pyfloat \<Rightarrow> string"
  format_value :: "json \<Rightarrow> string"
  exn_text :: "pyerr \<Rightarrow> string"
  cast_oob :: "real \<Rightarrow> 16 word"

text \<open>
  Python's \<open>float(x)\<close>. An int converts to the nearest binary64 value, and raises
  \<open>OverflowError\<close> when that is beyond the finite range.
\<close>

fun py_float :: "env \<Rightarrow> json \<Rightarrow> pyerr + pyfloat" where
  "py_float E JNull = Inl TypeError"
| "py_float E (JBool b) = Inr (Finite (if b then 1 else 0))"
| "py_float E (JInt n) =
     (if 2 ^ 1024 - 2 ^ 970 \<le> \<bar>n\<bar> then Inl OverflowError
      else Inr (Finite (float64 (of_int n))))"
| "py_float E (JFloat f) = Inr f"
| "py_float E (JStr s) =
     (case float_of_str E s of None \<Rightarrow> Inl ValueError | Some f \<Rightarrow> Inr f)"
| "py_float E (JArr xs) = Inl TypeError"
| "py_float E (JObj kvs) = Inl TypeError"

text \<open>\<open>str(e)\<close>.\<close>

fun str_exn :: "env \<Rightarrow> pyerr \<Rightarrow> string" where
  "str_exn E (Raised m) = m"
| "str_exn E e = exn_text E e"

text \<open>\<open>f'{v}'\<close>: a str is inserted as it is.\<close>

fun fstring :: "env \<Rightarrow> json \<Rightarrow> string" where
  "fstring E (JStr s) = s"
| "fstring E v = format_value E v"

text \<open>\<open>str(n)\<close> for an int: its decimal digits.\<close>

fun digits :: "nat \<Rightarrow> string" where
  "digits n =
     (if n < 10 then [char_of (48 + n)] else digits (n div 10) @ [char_of (48 + n mod 10)])"

definition str_int :: "int \<Rightarrow> string" where
  "str_int i = (if i < 0 then CHR ''-'' # digits (nat (- i)) else digits (nat i))"

subsection \<open>Module constants (lines 24 to 39)\<close>

record globals =
  DEFAULT_SPEED :: pyfloat
  DEFAULT_VOICE :: string
  VOICE_MAP :: "(string \<times> string) list"

definition module_globals :: globals where
  "module_globals =
     \<lparr>DEFAULT_SPEED = Finite 1.0,
      DEFAULT_VOICE = ''af_bella'',
      VOICE_MAP =
        [(''af_bella'', ''af_bella''),
         (''af_nicole'', ''af_nicole''),
         (''af_sarah'', ''af_sarah''),
         (''af_sky'', ''af_sky''),
         (''am_adam'', ''am_adam''),
         (''am_michael'', ''am_michael''),
         (''bf_emma'', ''bf_emma''),
         (''bf_isabella'', ''bf_isabella''),
         (''bm'', ''bm'')]\<rparr>"

text \<open>
  \<open>voice in VOICE_MAP\<close> and \<open>VOICE_MAP[voice]\<close> in one: the keys are strs, so a str
  is looked up, a list or a dict is unhashable (\<open>TypeError\<close>), and any other object
  is hashable and equal to no key.
\<close>

fun voice_lookup :: "(string \<times> string) list \<Rightarrow> json \<Rightarrow> pyerr + string option" where
  "voice_lookup m (JStr s) = Inr (map_of m s)"
| "voice_lookup m (JArr xs) = Inl TypeError"
| "voice_lookup m (JObj kvs) = Inl TypeError"
| "voice_lookup m JNull = Inr None"
| "voice_lookup m (JBool b) = Inr None"
| "voice_lookup m (JInt n) = Inr None"
| "voice_lookup m (JFloat f) = Inr None"

subsection \<open>Responses\<close>

type_synonym byte = "8 word"

datatype payload = Json json | Bytes "byte list"

record response =
  status :: nat
  mimetype :: string
  headers :: "(string \<times> string) list"
  body :: payload

text \<open>\<open>jsonify(v), code\<close>.\<close>

definition jsonify :: "json \<Rightarrow> nat \<Rightarrow> response" where
  "jsonify v code = \<lparr>status = code, mimetype = ''application/json'', headers = [], body = Json v\<rparr>"

text \<open>The \<open>error\<close> field of a JSON body, if it has one.\<close>

fun error_field :: "payload \<Rightarrow> string option" where
  "error_field (Json (JObj kvs)) =
     (case map_of kvs ''error'' of Some (JStr m) \<Rightarrow> Some m | _ \<Rightarrow> None)"
| "error_field p = None"

subsection \<open>Audio encoding (lines 80 to 91)\<close>

text \<open>
  \<open>astype(np.int16)\<close> on a float32: a C cast, which truncates towards zero when the
  truncated value is a 16-bit integer and is undefined otherwise.
\<close>

definition astype_int16 :: "env \<Rightarrow> real \<Rightarrow> 16 word" where
  "astype_int16 E y =
     (if - 32769 < y \<and> y < 32768 then word_of_int (trunc y) else cast_oob E y)"

text \<open>
  \<open>audio_int16 = (audio * 32767).astype(np.int16)\<close>: the product of a float32 array
  and a Python int is a float32 array, each product rounded to float32.
\<close>

definition audio_int16 :: "env \<Rightarrow> real list \<Rightarrow> 16 word list" where
  "audio_int16 E audio = map (\<lambda>s. astype_int16 E (float32 (s * 32767))) audio"

text \<open>
  \<open>tobytes()\<close> followed by \<open>writeframes\<close>, which stores 16-bit samples low byte
  first whatever the byte order of the host.
\<close>

definition tobytes :: "16 word list \<Rightarrow> byte list" where
  "tobytes ws = concat (map (\<lambda>w. [ucast w, ucast (drop_bit 8 w)]) ws)"

text \<open>Little-endian bytes of an unsigned integer, and a bytes literal.\<close>

fun le_bytes :: "nat \<Rightarrow> int \<Rightarrow> byte list" where
  "le_bytes 0 v = []"
| "le_bytes (Suc n) v = word_of_int v # le_bytes n (v div 256)"

definition bytes_of :: "string \<Rightarrow> byte list" where
  "bytes_of s = map (\<lambda>c. of_nat (of_char c)) s"

text \<open>
  \<open>struct.pack\<close> with a little-endian format: \<open>L\<close> is an unsigned 32-bit field,
  \<open>H\<close> an unsigned 16-bit field, \<open>S\<close> a bytes field; a value out of the range of
  its field raises \<open>struct.error\<close>.
\<close>

datatype field = L int | H int | S string

fun field_ok :: "field \<Rightarrow> bool" where
  "field_ok (L v) = (0 \<le> v \<and> v < 2 ^ 32)"
| "field_ok (H v) = (0 \<le> v \<and> v < 2 ^ 16)"
| "field_ok (S s) = True"

fun field_bytes :: "field \<Rightarrow> byte list" where
  "field_bytes (L v) = le_bytes 4 v"
| "field_bytes (H v) = le_bytes 2 v"
| "field_bytes (S s) = bytes_of s"

definition struct_pack :: "field list \<Rightarrow> pyerr + byte list" where
  "struct_pack fs =
     (if list_all field_ok fs then Inr (concat (map field_bytes fs)) else Inl StructError)"

text \<open>
  The standard library's \<open>wave\<close> writer, as the handler drives it: \<open>setnchannels\<close>,
  \<open>setsampwidth\<close>, \<open>setframerate\<close> (which refuses a rate that is not positive),
  one call of \<open>writeframes\<close>, and \<open>close\<close>. The file is \<open>RIFF\<close>, the packed
  header (format \<open><L4s4sLHHLLHH4s\<close>), the packed data length, and the frames.
\<close>

definition wave_write :: "nat \<Rightarrow> nat \<Rightarrow> int \<Rightarrow> byte list \<Rightarrow> pyerr + byte list" where
  "wave_write nchannels sampwidth framerate frames =
     (if framerate \<le> 0 then Inl WaveError
      else
        let datalength = int (length frames) in
        case struct_pack
               [L (36 + datalength), S ''WAVE'', S ''fmt '', L 16, H 1,
                H (int nchannels), L framerate,
                L (int nchannels * framerate * int sampwidth),
                H (int nchannels * int sampwidth), H (int sampwidth * 8), S ''data''] of
          Inl e \<Rightarrow> Inl e
        | Inr hdr \<Rightarrow>
            (case struct_pack [L datalength] of
               Inl e \<Rightarrow> Inl e
             | Inr len \<Rightarrow> Inr (bytes_of ''RIFF'' @ hdr @ len @ frames)))"

text \<open>Lines 80 to 91: the WAV file of the engine's samples.\<close>

definition wav_buffer :: "env \<Rightarrow> real list \<Rightarrow> int \<Rightarrow> pyerr + byte list" where
  "wav_buffer E audio sample_rate = wave_write 1 2 sample_rate (tobytes (audio_int16 E audio))"

text \<open>
  Line 94, \<open>duration = len(audio) / sample_rate\<close>: true division of two ints, which
  is the quotient rounded to binary64.
\<close>

definition duration :: "real list \<Rightarrow> int \<Rightarrow> pyerr + pyfloat" where
  "duration audio sample_rate =
     (if sample_rate = 0 then Inl ZeroDivisionError
      else Inr (Finite (float64 (real (length audio) / real_of_int sample_rate))))"

text \<open>Lines 80 to 106: the successful response.\<close>

definition wav_response :: "env \<Rightarrow> real list \<Rightarrow> int \<Rightarrow> pyerr + response" where
  "wav_response E audio sample_rate =
     (case wav_buffer E audio sample_rate of
        Inl e \<Rightarrow> Inl e
      | Inr wav \<Rightarrow>
          (case duration audio sample_rate of
             Inl e \<Rightarrow> Inl e
           | Inr d \<Rightarrow>
               Inr \<lparr>status = 200, mimetype = ''audio/wav'',
                    headers =
                      [(''X-Audio-Duration'', str_float E d),
                       (''X-Sample-Rate'', str_int sample_rate)],
                    body = Bytes wav\<rparr>))"

subsection \<open>A reader of canonical WAV files\<close>

text \<open>
  The decoder of the round-trip property: it accepts a file with the 44-byte header of
  an uncompressed 16-bit PCM file and returns the channel count, the bits per sample,
  the sample rate and the signed sample values.
\<close>

fun le_value :: "byte list \<Rightarrow> nat" where
  "le_value [] = 0"
| "le_value (b # bs) = unat b + 256 * le_value bs"

fun frames16 :: "byte list \<Rightarrow> int list" where
  "frames16 (lo # hi # rest) = sint (word_cat hi lo :: 16 word) # frames16 rest"
| "frames16 rest = []"

record wav =
  channels :: nat
  bits :: nat
  rate :: nat
  samples :: "int list"

definition field_at :: "nat \<Rightarrow> nat \<Rightarrow> byte list \<Rightarrow> byte list" where
  "field_at pos n bs = take n (drop pos bs)"

definition wav_decode :: "byte list \<Rightarrow> wav option" where
  "wav_decode bs =
     (if 44 \<le> length bs
         \<and> field_at 0 4 bs = bytes_of ''RIFF''
         \<and> le_value (field_at 4 4 bs) + 8 = length bs
         \<and> field_at 8 4 bs = bytes_of ''WAVE''
         \<and> field_at 12 4 bs = bytes_of ''fmt ''
         \<and> le_value (field_at 16 4 bs) = 16
         \<and> le_value (field_at 20 2 bs) = 1
         \<and> field_at 36 4 bs = bytes_of ''data''
         \<and> le_value (field_at 40 4 bs) + 44 = length bs
         \<and> le_value (field_at 34 2 bs) = 16
      then Some \<lparr>channels = le_value (field_at 22 2 bs),
                 bits = le_value (field_at 34 2 bs),
                 rate = le_value (field_at 24 4 bs),
                 samples = frames16 (drop 44 bs)\<rparr>
      else None)"

subsection \<open>The handlers\<close>

text \<open>Where a block of the handler leaves: on, by \<open>return\<close>, or by an exception.\<close>

datatype 'a flow = Continue 'a | Return response | Raise pyerr

text \<open>Line 62: \<open>not data or 'text' not in data\<close>.\<close>

definition missing_text :: "json \<Rightarrow> pyerr + bool" where
  "missing_text data =
     (if \<not> truthy data then Inr True
      else case contains ''text'' data of Inl e \<Rightarrow> Inl e | Inr b \<Rightarrow> Inr (\<not> b))"

text \<open>
  Lines 62 to 71: the fields of the request, with \<open>voice\<close> already mapped through
  \<open>VOICE_MAP\<close> as line 76 does.
\<close>

definition request_fields :: "env \<Rightarrow> globals \<Rightarrow> json \<Rightarrow> engine_call flow" where
  "request_fields E g data =
     (case missing_text data of
        Inl e \<Rightarrow> Raise e
      | Inr True \<Rightarrow>
          Return (jsonify (JObj [(''error'', JStr ''Missing required field: text'')]) 400)
      | Inr False \<Rightarrow>
     (case getitem data ''text'' of Inl e \<Rightarrow> Raise e | Inr text \<Rightarrow>
     (case get data ''voice'' (JStr (DEFAULT_VOICE g)) of Inl e \<Rightarrow> Raise e | Inr voice \<Rightarrow>
     (case get data ''speed'' (JFloat (DEFAULT_SPEED g)) of Inl e \<Rightarrow> Raise e | Inr sp \<Rightarrow>
     (case py_float E sp of Inl e \<Rightarrow> Raise e | Inr speed \<Rightarrow>
     (case voice_lookup (VOICE_MAP g) voice of
        Inl e \<Rightarrow> Raise e
      | Inr None \<Rightarrow>
          Return (jsonify (JObj [(''error'', JStr (''Invalid voice: '' @ fstring E voice))]) 400)
      | Inr (Some v) \<Rightarrow> Continue (text, v, speed)))))))"

text \<open>
  Lines 60 to 106, the body of the \<open>try\<close>: the response or the exception it ends
  with, and the engine calls it made. The argument is the outcome of
  \<open>request.get_json()\<close>: the parsed body, or the message of the exception it raised.
\<close>

definition try_body ::
  "env \<Rightarrow> globals \<Rightarrow> string + json \<Rightarrow> (pyerr + response) \<times> engine_call list" where
  "try_body E g rq =
     (case rq of
        Inl m \<Rightarrow> (Inl (Raised m), [])
      | Inr data \<Rightarrow>
          (case request_fields E g data of
             Raise e \<Rightarrow> (Inl e, [])
           | Return r \<Rightarrow> (Inr r, [])
           | Continue (text, v, speed) \<Rightarrow>
               (case kokoro_create E text v speed of
                  Inl m \<Rightarrow> (Inl (Raised m), [(text, v, speed)])
                | Inr (audio, sample_rate) \<Rightarrow>
                    (wav_response E audio sample_rate, [(text, v, speed)]))))"

text \<open>Lines 46 to 112: \<open>POST /synthesize\<close>, with the \<open>except Exception\<close> clause.\<close>

definition synthesize :: "env \<Rightarrow> globals \<Rightarrow> string + json \<Rightarrow> response \<times> engine_call list" where
  "synthesize E g rq =
     (case try_body E g rq of
        (Inr r, calls) \<Rightarrow> (r, calls)
      | (Inl e, calls) \<Rightarrow> (jsonify (JObj [(''error'', JStr (str_exn E e))]) 500, calls))"

text \<open>Lines 41 to 44: \<open>GET /health\<close>.\<close>

definition health :: response where
  "health = jsonify (JObj [(''status'', JStr ''ok''), (''service'', JStr ''kokoro-tts'')]) 200"

text \<open>Lines 114 to 120: \<open>GET /voices\<close>.\<close>

definition voices :: "globals \<Rightarrow> response" where
  "voices g =
     jsonify (JObj [(''voices'', JArr (map (\<lambda>kv. JStr (fst kv)) (VOICE_MAP g))),
                    (''default'', JStr (DEFAULT_VOICE g))]) 200"

text \<open>
  The three routes. A handler reads the module constants and assigns to none of them,
  so each step returns the constants it was given.
\<close>

datatype request = GET_health | POST_synthesize "string + json" | GET_voices

fun handle :: "env \<Rightarrow> globals \<Rightarrow> request \<Rightarrow> response \<times> globals" where
  "handle E g GET_health = (health, g)"
| "handle E g (POST_synthesize rq) = (fst (synthesize E g rq), g)"
| "handle E g GET_voices = (voices g, g)"

text \<open>Serving a sequence of requests: the responses, and the constants afterwards.\<close>

fun serve :: "env \<Rightarrow> globals \<Rightarrow> request list \<Rightarrow> response list \<times> globals" where
  "serve E g [] = ([], g)"
| "serve E g (r # rs) =
     (case handle E g r of
        (resp, g') \<Rightarrow> (case serve E g' rs of (resps, g'') \<Rightarrow> (resp # resps, g'')))"

subsection \<open>A test double\<close>

text \<open>
  An environment for concrete runs: the engine returns the five samples
  \<open>[0.0, 0.5, -0.5, 1.0, -1.0]\<close> at 24000 Hz, or raises an exception with an empty
  message when asked to speak the text \<open>boom\<close>; \<open>float\<close> reads the str \<open>1.5\<close>
  and refuses every other one.
\<close>

definition fake_env :: env where
  "fake_env =
     \<lparr>kokoro_create =
        (\<lambda>text voice speed.
           if text = JStr ''boom'' then Inl [] else Inr ([0, 1 / 2, - 1 / 2, 1, - 1], 24000)),
      float_of_str = (\<lambda>s. if s = ''1.5'' then Some (Finite (3 / 2)) else None),
      str_float = (\<lambda>f. ''float''),
      format_value = (\<lambda>v. ''object''),
      exn_text = (\<lambda>e. ''error''),
      cast_oob = (\<lambda>y. 0)\<rparr>"

section \<open>Properties of the request handler\<close>

subsection \<open>The fields of a request\<close>



text \<open>
  For a dict with the key \<open>text\<close>: the speed is converted first, then the voice is
  looked up.
\<close>

lemma request_fields_obj:
  assumes "map_of kvs ''text'' = Some t"
  shows "request_fields E g (JObj kvs) =
     (case py_float E (case map_of kvs ''speed'' of
                         None \<Rightarrow> JFloat (DEFAULT_SPEED g) | Some sp \<Rightarrow> sp) of
        Inl e \<Rightarrow> Raise e
      | Inr speed \<Rightarrow>
         (case voice_lookup (VOICE_MAP g)
                 (case map_of kvs ''voice'' of
                    None \<Rightarrow> JStr (DEFAULT_VOICE g) | Some v \<Rightarrow> v) of
            Inl e \<Rightarrow> Raise e
          | Inr None \<Rightarrow>
              Return (jsonify (JObj [(''error'',
                 JStr (''Invalid voice: '' @
                   fstring E (case map_of kvs ''voice'' of
                                None \<Rightarrow> JStr (DEFAULT_VOICE g) | Some v \<Rightarrow> v)))]) 400)
          | Inr (Some v) \<Rightarrow> Continue (t, v, speed)))"
proof -
  from assms have "kvs \<noteq> []" by auto
  with assms show ?thesis
    by (simp add: request_fields_def missing_text_def split: option.splits sum.splits)
qed


subsection \<open>Missing text\<close>




subsection \<open>Speed that does not convert\<close>

text \<open>
  Claim C9. For a request with \<open>text\<close> whose \<open>speed\<close> value \<open>float\<close> refuses,
  the response is 500 with the text of the conversion error, whatever the \<open>voice\<close>
  is, and the engine is not invoked: line 67 converts the speed before line 70 looks
  at the voice.
\<close>

theorem bad_speed_is_500:
  assumes "map_of kvs ''text'' = Some t"
    and "map_of kvs ''speed'' = Some sp"
    and "py_float E sp = Inl e"
  shows "status (fst (synthesize E g (Inr (JObj kvs)))) = 500 \<and>
         error_field (body (fst (synthesize E g (Inr (JObj kvs))))) = Some (str_exn E e) \<and>
         snd (synthesize E g (Inr (JObj kvs))) = []"
  using assms by (simp add: synthesize_def try_body_def request_fields_obj jsonify_def)

text \<open>
  The body \<open>{"text": "hi", "voice": "nope", "speed": "fast"}\<close>: 500, although the
  voice is not in the map.
\<close>

theorem bad_speed_is_500_witness:
  "map_of (VOICE_MAP module_globals) ''nope'' = None
   \<and> py_float fake_env (JStr ''fast'') = Inl ValueError
   \<and> status (fst (synthesize fake_env module_globals
        (Inr (JObj [(''text'', JStr ''hi''), (''voice'', JStr ''nope''),
                    (''speed'', JStr ''fast'')])))) = 500"
  using bad_speed_is_500
    [of "[(''text'', JStr ''hi''), (''voice'', JStr ''nope''), (''speed'', JStr ''fast'')]"
      "JStr ''hi''" "JStr ''fast''" fake_env ValueError module_globals]
  by (simp add: fake_env_def module_globals_def)

subsection \<open>Voice validation\<close>

text \<open>
  Claim C2, as the handler implements it. For a request with \<open>text\<close> whose \<open>speed\<close>
  is absent or converts to a float, and whose \<open>voice\<close> value is hashable (not a list,
  not a dict) and not a key of \<open>VOICE_MAP\<close>, the response is 400, its \<open>error\<close>
  field is \<open>Invalid voice: \<close> followed by the voice, and the engine is not invoked.
\<close>

theorem invalid_voice_is_400:
  assumes "map_of kvs ''text'' = Some t"
    and "map_of kvs ''voice'' = Some voice"
    and "\<forall>xs. voice \<noteq> JArr xs" and "\<forall>ys. voice \<noteq> JObj ys"
    and "\<forall>s. voice = JStr s \<longrightarrow> map_of (VOICE_MAP g) s = None"
    and "map_of kvs ''speed'' = None
         \<or> (\<exists>sp s. map_of kvs ''speed'' = Some sp \<and> py_float E sp = Inr s)"
  shows "status (fst (synthesize E g (Inr (JObj kvs)))) = 400 \<and>
         error_field (body (fst (synthesize E g (Inr (JObj kvs))))) =
           Some (''Invalid voice: '' @ fstring E voice) \<and>
         snd (synthesize E g (Inr (JObj kvs))) = []"
proof -
  from assms(3-5) have v: "voice_lookup (VOICE_MAP g) voice = Inr None"
    by (cases voice) auto
  from assms(6) obtain s where
    s: "py_float E (case map_of kvs ''speed'' of
                      None \<Rightarrow> JFloat (DEFAULT_SPEED g) | Some sp \<Rightarrow> sp) = Inr s"
    by auto
  show ?thesis
    using assms(1,2) v s
    by (simp add: synthesize_def try_body_def request_fields_obj jsonify_def)
qed

text \<open>The body \<open>{"text": "hi", "voice": "nope"}\<close>: 400, \<open>Invalid voice: nope\<close>.\<close>

theorem invalid_voice_is_400_witness:
  "status (fst (synthesize fake_env module_globals
      (Inr (JObj [(''text'', JStr ''hi''), (''voice'', JStr ''nope'')])))) = 400
   \<and> error_field (body (fst (synthesize fake_env module_globals
      (Inr (JObj [(''text'', JStr ''hi''), (''voice'', JStr ''nope'')]))))) =
        Some ''Invalid voice: nope''
   \<and> snd (synthesize fake_env module_globals
      (Inr (JObj [(''text'', JStr ''hi''), (''voice'', JStr ''nope'')]))) = []"
  using invalid_voice_is_400
    [of "[(''text'', JStr ''hi''), (''voice'', JStr ''nope'')]" "JStr ''hi''" "JStr ''nope''"
      module_globals fake_env]
  by (simp add: module_globals_def)

text \<open>
  The body \<open>{"text": "hi", "voice": "nope", "speed": null}\<close> has \<open>text\<close> and a
  voice outside the set, and the response is 500: \<open>float(None)\<close> raises before the
  voice is looked at.
\<close>

theorem invalid_voice_bad_speed_is_500:
  "status (fst (synthesize fake_env module_globals
      (Inr (JObj [(''text'', JStr ''hi''), (''voice'', JStr ''nope''), (''speed'', JNull)])))) = 500"
  by (simp add: synthesize_def try_body_def request_fields_obj jsonify_def)

subsection \<open>Engine failure\<close>

text \<open>
  Claim C3, as the handler implements it. For a request that passes validation, if the
  engine raises an exception, the response is 500 and the \<open>error\<close> field of its body
  is the exception's message, \<open>str(e)\<close>; the engine was called once.
\<close>

theorem engine_failure_is_500:
  assumes "request_fields E g data = Continue (text, v, speed)"
    and "kokoro_create E text v speed = Inl m"
  shows "status (fst (synthesize E g (Inr data))) = 500 \<and>
         error_field (body (fst (synthesize E g (Inr data)))) = Some m \<and>
         snd (synthesize E g (Inr data)) = [(text, v, speed)]"
  using assms by (simp add: synthesize_def try_body_def jsonify_def)

text \<open>The body \<open>{"text": "boom"}\<close>, on which the engine of the test double raises.\<close>

theorem engine_failure_is_500_witness:
  "request_fields fake_env module_globals (JObj [(''text'', JStr ''boom'')]) =
     Continue (JStr ''boom'', ''af_bella'', Finite 1)
   \<and> kokoro_create fake_env (JStr ''boom'') ''af_bella'' (Finite 1) = Inl []
   \<and> status (fst (synthesize fake_env module_globals (Inr (JObj [(''text'', JStr ''boom'')])))) = 500
   \<and> snd (synthesize fake_env module_globals (Inr (JObj [(''text'', JStr ''boom'')]))) =
       [(JStr ''boom'', ''af_bella'', Finite 1)]"
proof -
  have h1: "request_fields fake_env module_globals (JObj [(''text'', JStr ''boom'')]) =
     Continue (JStr ''boom'', ''af_bella'', Finite 1)"
    by (simp add: request_fields_obj module_globals_def)
  have h2: "kokoro_create fake_env (JStr ''boom'') ''af_bella'' (Finite 1) = Inl []"
    by (simp add: fake_env_def)
  show ?thesis using h1 h2 engine_failure_is_500 [OF h1 h2] by simp
qed

text \<open>
  An exception whose message is empty (\<open>raise RuntimeError()\<close>) gives a 500 whose
  \<open>error\<close> field is the empty string.
\<close>

theorem engine_failure_empty_message:
  "kokoro_create fake_env (JStr ''boom'') ''af_bella'' (Finite 1) = Inl []
   \<and> status (fst (synthesize fake_env module_globals (Inr (JObj [(''text'', JStr ''boom'')])))) = 500
   \<and> error_field (body (fst (synthesize fake_env module_globals
        (Inr (JObj [(''text'', JStr ''boom'')]))))) = Some []"
  by (simp add: synthesize_def try_body_def request_fields_obj jsonify_def module_globals_def
      fake_env_def)

subsection \<open>Defaults\<close>

lemma wav_response_status:
  "wav_response E audio sample_rate = Inr r \<Longrightarrow> status r = 200"
  by (auto simp: wav_response_def split: sum.splits)

text \<open>
  A request whose fields are accepted: the engine is applied to them, once, and the
  response is made from what the engine returns or raises.
\<close>

lemma synthesize_continue:
  assumes "request_fields E g data = Continue (t, v, speed)"
  shows "synthesize E g (Inr data) =
     (case kokoro_create E t v speed of
        Inl m \<Rightarrow> jsonify (JObj [(''error'', JStr m)]) 500
      | Inr (audio, sample_rate) \<Rightarrow>
          (case wav_response E audio sample_rate of
             Inl e \<Rightarrow> jsonify (JObj [(''error'', JStr (str_exn E e))]) 500
           | Inr r \<Rightarrow> r),
      [(t, v, speed)])"
  using assms
  by (simp add: synthesize_def try_body_def split: sum.splits prod.splits)

lemma synthesize_continue_status:
  assumes "request_fields E g data = Continue (t, v, speed)"
  shows "status (fst (synthesize E g (Inr data))) \<noteq> 400"
  using assms
  by (auto simp: synthesize_def try_body_def jsonify_def dest: wav_response_status
      split: sum.splits prod.splits)

lemma synthesize_status_400:
  "status (fst (synthesize E g (Inr data))) = 400 \<Longrightarrow>
   \<exists>r. request_fields E g data = Return r \<and> fst (synthesize E g (Inr data)) = r"
  by (auto simp: synthesize_def try_body_def jsonify_def dest: wav_response_status
      split: flow.splits sum.splits prod.splits)

text \<open>
  Claim C5, as the handler implements it. For a request with \<open>text\<close>: if
  \<open>voice\<close> is absent and \<open>speed\<close> is absent or converts to a float, the engine
  \<open>kokoro.create\<close> is called exactly once, with the text, the voice \<open>af_bella\<close>
  and that speed (1.0 when absent); if \<open>speed\<close> is absent and \<open>voice\<close> is absent
  or a key of \<open>VOICE_MAP\<close>, it is called exactly once, with the text, that voice
  (\<open>af_bella\<close> when absent) and the speed 1.0. In both cases the response is the one
  made from the outcome of that call: the WAV response of the samples it returned, or a
  500 with the message of what it raised.
\<close>

theorem defaults_applied:
  assumes "map_of kvs ''text'' = Some t"
  shows "(\<forall>s. map_of kvs ''voice'' = None
            \<and> (map_of kvs ''speed'' = None \<and> s = Finite 1
               \<or> (\<exists>sp. map_of kvs ''speed'' = Some sp \<and> py_float E sp = Inr s)) \<longrightarrow>
            synthesize E module_globals (Inr (JObj kvs)) =
              (case kokoro_create E t ''af_bella'' s of
                 Inl m \<Rightarrow> jsonify (JObj [(''error'', JStr m)]) 500
               | Inr (audio, sample_rate) \<Rightarrow>
                   (case wav_response E audio sample_rate of
                      Inl e \<Rightarrow> jsonify (JObj [(''error'', JStr (str_exn E e))]) 500
                    | Inr r \<Rightarrow> r),
               [(t, ''af_bella'', s)]))
       \<and> (\<forall>v. map_of kvs ''speed'' = None
            \<and> (map_of kvs ''voice'' = None \<and> v = ''af_bella''
               \<or> map_of kvs ''voice'' = Some (JStr v)
                  \<and> map_of (VOICE_MAP module_globals) v \<noteq> None) \<longrightarrow>
            synthesize E module_globals (Inr (JObj kvs)) =
              (case kokoro_create E t v (Finite 1) of
                 Inl m \<Rightarrow> jsonify (JObj [(''error'', JStr m)]) 500
               | Inr (audio, sample_rate) \<Rightarrow>
                   (case wav_response E audio sample_rate of
                      Inl e \<Rightarrow> jsonify (JObj [(''error'', JStr (str_exn E e))]) 500
                    | Inr r \<Rightarrow> r),
               [(t, v, Finite 1)]))"
proof (intro conjI allI impI)
  fix s
  assume "map_of kvs ''voice'' = None
            \<and> (map_of kvs ''speed'' = None \<and> s = Finite 1
               \<or> (\<exists>sp. map_of kvs ''speed'' = Some sp \<and> py_float E sp = Inr s))"
  with assms have "request_fields E module_globals (JObj kvs) = Continue (t, ''af_bella'', s)"
    by (auto simp: request_fields_obj module_globals_def)
  then show "synthesize E module_globals (Inr (JObj kvs)) =
              (case kokoro_create E t ''af_bella'' s of
                 Inl m \<Rightarrow> jsonify (JObj [(''error'', JStr m)]) 500
               | Inr (audio, sample_rate) \<Rightarrow>
                   (case wav_response E audio sample_rate of
                      Inl e \<Rightarrow> jsonify (JObj [(''error'', JStr (str_exn E e))]) 500
                    | Inr r \<Rightarrow> r),
               [(t, ''af_bella'', s)])"
    by (rule synthesize_continue)
next
  fix v
  assume "map_of kvs ''speed'' = None
            \<and> (map_of kvs ''voice'' = None \<and> v = ''af_bella''
               \<or> map_of kvs ''voice'' = Some (JStr v)
                  \<and> map_of (VOICE_MAP module_globals) v \<noteq> None)"
  with assms have "request_fields E module_globals (JObj kvs) = Continue (t, v, Finite 1)"
    by (auto simp: request_fields_obj module_globals_def split: if_splits)
  then show "synthesize E module_globals (Inr (JObj kvs)) =
              (case kokoro_create E t v (Finite 1) of
                 Inl m \<Rightarrow> jsonify (JObj [(''error'', JStr m)]) 500
               | Inr (audio, sample_rate) \<Rightarrow>
                   (case wav_response E audio sample_rate of
                      Inl e \<Rightarrow> jsonify (JObj [(''error'', JStr (str_exn E e))]) 500
                    | Inr r \<Rightarrow> r),
               [(t, v, Finite 1)])"
    by (rule synthesize_continue)
qed

text \<open>
  The body \<open>{"text": "hi"}\<close>: one call, with \<open>af_bella\<close> and 1.0, and the
  response made from its outcome.
\<close>

theorem defaults_applied_witness:
  "synthesize fake_env module_globals (Inr (JObj [(''text'', JStr ''hi'')])) =
     (case kokoro_create fake_env (JStr ''hi'') ''af_bella'' (Finite 1) of
        Inl m \<Rightarrow> jsonify (JObj [(''error'', JStr m)]) 500
      | Inr (audio, sample_rate) \<Rightarrow>
          (case wav_response fake_env audio sample_rate of
             Inl e \<Rightarrow> jsonify (JObj [(''error'', JStr (str_exn fake_env e))]) 500
           | Inr r \<Rightarrow> r),
      [(JStr ''hi'', ''af_bella'', Finite 1)])"
  using defaults_applied [of "[(''text'', JStr ''hi'')]" "JStr ''hi''" fake_env]
  by simp

text \<open>
  The body \<open>{"text": "hi", "speed": "fast"}\<close> has no \<open>voice\<close>, and the body
  \<open>{"text": "hi", "voice": "nope"}\<close> has no \<open>speed\<close>: the first ends at line 67
  with 500, the second at line 71 with 400, and for neither is the engine called.
\<close>

theorem defaults_without_call:
  "map_of [(''text'', JStr ''hi''), (''speed'', JStr ''fast'')] ''voice'' = None
   \<and> synthesize fake_env module_globals
        (Inr (JObj [(''text'', JStr ''hi''), (''speed'', JStr ''fast'')])) =
       (jsonify (JObj [(''error'', JStr ''error'')]) 500, [])
   \<and> map_of [(''text'', JStr ''hi''), (''voice'', JStr ''nope'')] ''speed'' = None
   \<and> synthesize fake_env module_globals
        (Inr (JObj [(''text'', JStr ''hi''), (''voice'', JStr ''nope'')])) =
       (jsonify (JObj [(''error'', JStr ''Invalid voice: nope'')]) 400, [])"
  by (simp add: synthesize_def try_body_def request_fields_obj module_globals_def fake_env_def)

subsection \<open>Empty text\<close>

text \<open>
  Claim C10, as the handler implements it. A request whose \<open>text\<close> is the empty
  string is never answered with the missing-field response: line 62 tests only the
  presence of the key. If it is answered with 400, its voice is not in the map. When its
  \<open>voice\<close> is absent or a key of \<open>VOICE_MAP\<close> and its \<open>speed\<close> is absent or
  converts to a float, it is not rejected with 400: the engine \<open>kokoro.create\<close> is
  called exactly once, with the empty string as text, and the response is the one made
  from the outcome of that call.
\<close>

theorem empty_text_accepted:
  assumes "map_of kvs ''text'' = Some (JStr [])"
  shows "fst (synthesize E g (Inr (JObj kvs))) \<noteq>
           jsonify (JObj [(''error'', JStr ''Missing required field: text'')]) 400
       \<and> (status (fst (synthesize E g (Inr (JObj kvs)))) = 400 \<longrightarrow>
            voice_lookup (VOICE_MAP g)
              (case map_of kvs ''voice'' of None \<Rightarrow> JStr (DEFAULT_VOICE g) | Some x \<Rightarrow> x)
              = Inr None)
       \<and> (\<forall>v s.
             (map_of kvs ''voice'' = None \<and> map_of (VOICE_MAP g) (DEFAULT_VOICE g) = Some v
              \<or> (\<exists>x. map_of kvs ''voice'' = Some (JStr x) \<and> map_of (VOICE_MAP g) x = Some v))
           \<and> (map_of kvs ''speed'' = None \<and> s = DEFAULT_SPEED g
              \<or> (\<exists>sp. map_of kvs ''speed'' = Some sp \<and> py_float E sp = Inr s)) \<longrightarrow>
            synthesize E g (Inr (JObj kvs)) =
              (case kokoro_create E (JStr []) v s of
                 Inl m \<Rightarrow> jsonify (JObj [(''error'', JStr m)]) 500
               | Inr (audio, sample_rate) \<Rightarrow>
                   (case wav_response E audio sample_rate of
                      Inl e \<Rightarrow> jsonify (JObj [(''error'', JStr (str_exn E e))]) 500
                    | Inr r \<Rightarrow> r),
               [(JStr [], v, s)])
            \<and> status (fst (synthesize E g (Inr (JObj kvs)))) \<noteq> 400)"
proof (intro conjI allI impI)
  show "fst (synthesize E g (Inr (JObj kvs))) \<noteq>
           jsonify (JObj [(''error'', JStr ''Missing required field: text'')]) 400"
  proof
    assume eq: "fst (synthesize E g (Inr (JObj kvs))) =
           jsonify (JObj [(''error'', JStr ''Missing required field: text'')]) 400"
    then have "status (fst (synthesize E g (Inr (JObj kvs)))) = 400"
      by (simp add: jsonify_def)
    from synthesize_status_400 [OF this] eq
    have "request_fields E g (JObj kvs) =
        Return (jsonify (JObj [(''error'', JStr ''Missing required field: text'')]) 400)"
      by auto
    with assms show False
      by (auto simp: request_fields_obj jsonify_def split: sum.splits option.splits)
  qed
next
  assume "status (fst (synthesize E g (Inr (JObj kvs)))) = 400"
  from synthesize_status_400 [OF this] assms
  show "voice_lookup (VOICE_MAP g)
          (case map_of kvs ''voice'' of None \<Rightarrow> JStr (DEFAULT_VOICE g) | Some x \<Rightarrow> x)
        = Inr None"
    by (auto simp: request_fields_obj split: sum.splits option.splits)
next
  fix v s
  assume h: "(map_of kvs ''voice'' = None \<and> map_of (VOICE_MAP g) (DEFAULT_VOICE g) = Some v
              \<or> (\<exists>x. map_of kvs ''voice'' = Some (JStr x) \<and> map_of (VOICE_MAP g) x = Some v))
           \<and> (map_of kvs ''speed'' = None \<and> s = DEFAULT_SPEED g
              \<or> (\<exists>sp. map_of kvs ''speed'' = Some sp \<and> py_float E sp = Inr s))"
  with assms have c: "request_fields E g (JObj kvs) = Continue (JStr [], v, s)"
    by (auto simp: request_fields_obj)
  from c show "synthesize E g (Inr (JObj kvs)) =
              (case kokoro_create E (JStr []) v s of
                 Inl m \<Rightarrow> jsonify (JObj [(''error'', JStr m)]) 500
               | Inr (audio, sample_rate) \<Rightarrow>
                   (case wav_response E audio sample_rate of
                      Inl e \<Rightarrow> jsonify (JObj [(''error'', JStr (str_exn E e))]) 500
                    | Inr r \<Rightarrow> r),
               [(JStr [], v, s)])"
    by (rule synthesize_continue)
  from c show "status (fst (synthesize E g (Inr (JObj kvs)))) \<noteq> 400"
    by (rule synthesize_continue_status)
qed

text \<open>
  The body \<open>{"text": ""}\<close>: the engine is called with the empty string, and the
  status is not 400.
\<close>

theorem empty_text_accepted_witness:
  "synthesize fake_env module_globals (Inr (JObj [(''text'', JStr [])])) =
     (case kokoro_create fake_env (JStr []) ''af_bella'' (Finite 1) of
        Inl m \<Rightarrow> jsonify (JObj [(''error'', JStr m)]) 500
      | Inr (audio, sample_rate) \<Rightarrow>
          (case wav_response fake_env audio sample_rate of
             Inl e \<Rightarrow> jsonify (JObj [(''error'', JStr (str_exn fake_env e))]) 500
           | Inr r \<Rightarrow> r),
      [(JStr [], ''af_bella'', Finite 1)])
   \<and> status (fst (synthesize fake_env module_globals (Inr (JObj [(''text'', JStr [])])))) \<noteq> 400"
proof -
  have t: "map_of [(''text'', JStr [])] ''text'' = Some (JStr [])"
    by simp
  have v: "map_of (VOICE_MAP module_globals) (DEFAULT_VOICE module_globals) = Some ''af_bella''"
    and s: "Finite 1 = DEFAULT_SPEED module_globals"
    by (simp_all add: module_globals_def)
  from empty_text_accepted [OF t, of fake_env module_globals] v s show ?thesis
    by auto
qed

text \<open>
  The body \<open>{"text": "", "voice": "nope"}\<close> has the empty string as \<open>text\<close>,
  and it is rejected with 400 at line 71 without a call of the engine.
\<close>

theorem empty_text_invalid_voice_is_400:
  "map_of [(''text'', JStr []), (''voice'', JStr ''nope'')] ''text'' = Some (JStr [])
   \<and> synthesize fake_env module_globals
        (Inr (JObj [(''text'', JStr []), (''voice'', JStr ''nope'')])) =
       (jsonify (JObj [(''error'', JStr ''Invalid voice: nope'')]) 400, [])"
  by (simp add: synthesize_def try_body_def request_fields_obj module_globals_def)

subsection \<open>The duration header\<close>

text \<open>
  Claim C7. Every response of \<open>POST /synthesize\<close> with status 200 comes from one
  engine call that returned samples \<open>audio\<close> and a positive rate \<open>sample_rate\<close>,
  and its header \<open>X-Audio-Duration\<close> is the text of the float
  \<open>len(audio) / sample_rate\<close>.
\<close>

theorem duration_header:
  assumes "synthesize E g rq = (r, calls)" and "status r = 200"
  shows "\<exists>t v speed audio sample_rate.
           calls = [(t, v, speed)]
         \<and> kokoro_create E t v speed = Inr (audio, sample_rate)
         \<and> 0 < sample_rate
         \<and> map_of (headers r) ''X-Audio-Duration'' =
             Some (str_float E (Finite (float64 (real (length audio) / real_of_int sample_rate))))"
proof -
  from assms obtain data where rq: "rq = Inr data"
    by (cases rq) (auto simp: synthesize_def try_body_def jsonify_def)
  from assms rq obtain t v speed where c: "request_fields E g data = Continue (t, v, speed)"
    by (cases "request_fields E g data")
      (auto simp: synthesize_def try_body_def jsonify_def request_fields_def
        split: sum.splits bool.splits option.splits)
  from assms rq c obtain audio sample_rate where
    k: "kokoro_create E t v speed = Inr (audio, sample_rate)"
    by (cases "kokoro_create E t v speed") (auto simp: synthesize_def try_body_def jsonify_def)
  from assms rq c k have w: "wav_response E audio sample_rate = Inr r"
    and cs: "calls = [(t, v, speed)]"
    by (auto simp: synthesize_def try_body_def jsonify_def split: sum.splits)
  from w have pos: "0 < sample_rate"
    by (auto simp: wav_response_def wav_buffer_def wave_write_def split: sum.splits if_splits)
  from w pos have "map_of (headers r) ''X-Audio-Duration'' =
      Some (str_float E (Finite (float64 (real (length audio) / real_of_int sample_rate))))"
    by (auto simp: wav_response_def duration_def split: sum.splits)
  with cs k pos show ?thesis by blast
qed

subsection \<open>The voice list\<close>

lemma handle_globals: "snd (handle E g r) = g"
  by (cases r) simp_all

lemma serve_globals: "snd (serve E g rs) = g"
proof (induction rs arbitrary: g)
  case Nil
  show ?case by simp
next
  case (Cons r rs)
  obtain resp where h: "handle E g r = (resp, g)"
    using handle_globals [of E g r] by (cases "handle E g r") simp
  obtain resps where s: "serve E g rs = (resps, g)"
    using Cons.IH [of g] by (cases "serve E g rs") simp
  show ?case by (simp add: h s)
qed

text \<open>
  Claim C8. After any sequence of requests, \<open>POST /synthesize\<close> among them, the
  module constants are the ones the module started with, and \<open>GET /voices\<close> returns
  the nine voice identifiers, in the order of \<open>VOICE_MAP\<close>, with the default
  \<open>af_bella\<close>.
\<close>

theorem voices_fixed:
  "snd (serve E module_globals rqs) = module_globals
   \<and> fst (handle E (snd (serve E module_globals rqs)) GET_voices) =
       jsonify (JObj [(''voices'',
                  JArr [JStr ''af_bella'', JStr ''af_nicole'', JStr ''af_sarah'', JStr ''af_sky'',
                        JStr ''am_adam'', JStr ''am_michael'', JStr ''bf_emma'',
                        JStr ''bf_isabella'', JStr ''bm'']),
                 (''default'', JStr ''af_bella'')]) 200"
  by (simp add: serve_globals voices_def module_globals_def)

text \<open>After a synthesis and a rejected request, the voice list is the same.\<close>

theorem voices_fixed_witness:
  "fst (handle fake_env
         (snd (serve fake_env module_globals
            [POST_synthesize (Inr (JObj [(''text'', JStr ''hi'')])),
             POST_synthesize (Inr (JObj [(''text'', JStr ''hi''), (''voice'', JStr ''nope'')])),
             GET_voices]))
         GET_voices) =
     jsonify (JObj [(''voices'',
                JArr [JStr ''af_bella'', JStr ''af_nicole'', JStr ''af_sarah'', JStr ''af_sky'',
                      JStr ''am_adam'', JStr ''am_michael'', JStr ''bf_emma'',
                      JStr ''bf_isabella'', JStr ''bm'']),
               (''default'', JStr ''af_bella'')]) 200"
  using voices_fixed [of fake_env
      "[POST_synthesize (Inr (JObj [(''text'', JStr ''hi'')])),
        POST_synthesize (Inr (JObj [(''text'', JStr ''hi''), (''voice'', JStr ''nope'')])),
        GET_voices]"]
  by (rule conjunct2)

section \<open>Properties of the audio encoder\<close>

subsection \<open>Rounding to float32 never crosses an integer\<close>

lemma round_half_even_bounds:
  "\<lfloor>x\<rfloor> \<le> round_half_even x \<and> round_half_even x \<le> \<lceil>x\<rceil>"
  unfolding round_half_even_def Let_def
  by (auto simp: ceiling_altdef)

lemma round_half_even_ge:
  assumes "of_int n \<le> x"
  shows "n \<le> round_half_even x"
proof -
  from assms have "n \<le> \<lfloor>x\<rfloor>" by (simp only: le_floor_iff)
  with round_half_even_bounds [of x] show ?thesis by linarith
qed

lemma round_half_even_le:
  assumes "x \<le> of_int n"
  shows "round_half_even x \<le> n"
proof -
  from assms have "\<lceil>x\<rceil> \<le> n" by (simp only: ceiling_le_iff)
  with round_half_even_bounds [of x] show ?thesis by linarith
qed

text \<open>
  Where the unit in the last place is at most 1, every integer is a multiple of it, so
  rounding keeps a value on its side of every integer.
\<close>

lemma ieee_round_ge:
  assumes "ulp_exponent p d x \<le> 0" and "of_int n \<le> x"
  shows "of_int n \<le> ieee_round p d x"
proof -
  define m where "m = nat (- ulp_exponent p d x)"
  have u: "pow2 (ulp_exponent p d x) = 1 / 2 ^ m"
    using assms(1) by (cases "ulp_exponent p d x = 0") (auto simp: pow2_def m_def)
  have "of_int (n * 2 ^ m) \<le> x * 2 ^ m"
    using assms(2) by simp
  then have "n * 2 ^ m \<le> round_half_even (x * 2 ^ m)"
    by (rule round_half_even_ge)
  then have "real_of_int (n * 2 ^ m) \<le> real_of_int (round_half_even (x * 2 ^ m))"
    by (simp only: of_int_le_iff)
  then have "real_of_int n \<le> real_of_int (round_half_even (x * 2 ^ m)) / 2 ^ m"
    by (simp add: pos_le_divide_eq)
  then show ?thesis
    by (simp add: ieee_round_def Let_def u)
qed

lemma ieee_round_le:
  assumes "ulp_exponent p d x \<le> 0" and "x \<le> of_int n"
  shows "ieee_round p d x \<le> of_int n"
proof -
  define m where "m = nat (- ulp_exponent p d x)"
  have u: "pow2 (ulp_exponent p d x) = 1 / 2 ^ m"
    using assms(1) by (cases "ulp_exponent p d x = 0") (auto simp: pow2_def m_def)
  have "x * 2 ^ m \<le> of_int (n * 2 ^ m)"
    using assms(2) by simp
  then have "round_half_even (x * 2 ^ m) \<le> n * 2 ^ m"
    by (rule round_half_even_le)
  then have "real_of_int (round_half_even (x * 2 ^ m)) \<le> real_of_int (n * 2 ^ m)"
    by (simp only: of_int_le_iff)
  then have "real_of_int (round_half_even (x * 2 ^ m)) / 2 ^ m \<le> real_of_int n"
    by (simp add: pos_divide_le_eq)
  then show ?thesis
    by (simp add: ieee_round_def Let_def u)
qed

lemma ulp_exponent_float32:
  assumes "\<bar>x\<bar> \<le> 32767"
  shows "ulp_exponent 24 149 x \<le> 0"
proof -
  have "\<bar>x\<bar> * 2 ^ 149 \<le> 32767 * 2 ^ 149"
    using assms by simp
  also have "\<dots> < real_of_int (2 ^ 173)"
    by simp
  finally have "\<lfloor>\<bar>x\<bar> * 2 ^ 149\<rfloor> < 2 ^ 173"
    by (simp only: floor_less_iff)
  then have "bitlen \<lfloor>\<bar>x\<bar> * 2 ^ 149\<rfloor> \<le> 173"
    by (simp add: bitlen_le_iff_power)
  then show ?thesis
    by (simp add: ulp_exponent_def)
qed

lemma float32_between:
  assumes "\<bar>x\<bar> \<le> 32767"
  shows "of_int \<lfloor>x\<rfloor> \<le> float32 x" and "float32 x \<le> of_int \<lceil>x\<rceil>"
  unfolding float32_def
  by (rule ieee_round_ge [OF ulp_exponent_float32 [OF assms]], simp)
     (rule ieee_round_le [OF ulp_exponent_float32 [OF assms]], simp)

lemma trunc_between:
  assumes "of_int a \<le> y" and "y \<le> of_int b"
  shows "a \<le> trunc y" and "trunc y \<le> b"
proof -
  from assms(1) have f: "a \<le> \<lfloor>y\<rfloor>" by (simp only: le_floor_iff)
  from assms(2) have c: "\<lceil>y\<rceil> \<le> b" by (simp only: ceiling_le_iff)
  have fc: "\<lfloor>y\<rfloor> \<le> \<lceil>y\<rceil>" by (rule floor_le_ceiling)
  from f fc have f': "a \<le> \<lceil>y\<rceil>" by (rule order_trans)
  from fc c have c': "\<lfloor>y\<rfloor> \<le> b" by (rule order_trans)
  from f f' show "a \<le> trunc y" by (simp add: trunc_def)
  from c c' show "trunc y \<le> b" by (simp add: trunc_def)
qed

lemma sint_16: "- 32768 \<le> k \<Longrightarrow> k \<le> 32767 \<Longrightarrow> sint (word_of_int k :: 16 word) = k"
  by (simp add: sint_sbintrunc' signed_take_bit_int_eq_self)

subsection \<open>One sample\<close>

lemma pcm_sample:
  assumes "\<bar>s\<bar> \<le> 1"
  shows "sint (astype_int16 E (float32 (s * 32767))) = trunc (float32 (s * 32767))"
    and "- 32767 \<le> trunc (float32 (s * 32767))"
    and "trunc (float32 (s * 32767)) \<le> 32767"
    and "\<bar>real_of_int (trunc (float32 (s * 32767))) - s * 32767\<bar> < 1"
proof -
  let ?p = "s * 32767"
  let ?y = "float32 ?p"
  from assms have p: "\<bar>?p\<bar> \<le> 32767" by (simp add: abs_mult)
  note b = float32_between [OF p]
  have t1: "\<lfloor>?p\<rfloor> \<le> trunc ?y" and t2: "trunc ?y \<le> \<lceil>?p\<rceil>"
    using trunc_between [OF b] by simp_all
  from p have lo: "- 32767 \<le> \<lfloor>?p\<rfloor>" and hi: "\<lceil>?p\<rceil> \<le> 32767"
    by (simp_all add: le_floor_iff ceiling_le_iff abs_le_iff)
  from t1 lo show r1: "- 32767 \<le> trunc ?y" by linarith
  from t2 hi show r2: "trunc ?y \<le> 32767" by linarith
  have "real_of_int \<lfloor>?p\<rfloor> \<le> ?y" and "?y \<le> real_of_int \<lceil>?p\<rceil>"
    using b by simp_all
  with lo hi have "- 32769 < ?y \<and> ?y < 32768"
    by linarith
  then have "astype_int16 E ?y = word_of_int (trunc ?y)"
    by (simp add: astype_int16_def)
  with r1 r2 show "sint (astype_int16 E ?y) = trunc ?y"
    by (simp add: sint_16)
  have "?p - 1 < real_of_int \<lfloor>?p\<rfloor>" and "real_of_int \<lceil>?p\<rceil> < ?p + 1"
    by linarith+
  with t1 t2 show "\<bar>real_of_int (trunc ?y) - ?p\<bar> < 1"
    by linarith
qed

lemma length_audio_int16: "length (audio_int16 E audio) = length audio"
  by (simp add: audio_int16_def)

lemma audio_int16_nth:
  "i < length audio \<Longrightarrow>
   audio_int16 E audio ! i = astype_int16 E (float32 (audio ! i * 32767))"
  by (simp add: audio_int16_def)

text \<open>Products that float32 represents exactly.\<close>

lemma float32_exact:
  "float32 0 = 0"
  "float32 32767 = 32767"
  "float32 (- 32767) = - 32767"
  "float32 (32767 / 2) = 32767 / 2"
  "float32 (- (32767 / 2)) = - (32767 / 2)"
  "float32 (32767 / 4) = 32767 / 4"
  unfolding float32_def ieee_round_def ulp_exponent_def
  by (simp_all add: compute_bitlen pow2_def round_half_even_def Let_def)

text \<open>
  The samples of the specification's example: full scale is 32767 and \<open>- 32767\<close>,
  and one half is 16383, not 16384.
\<close>

lemma example_pcm:
  "map sint (audio_int16 fake_env [0, 1 / 2, - 1 / 2, 1, - 1]) =
     [0, 16383, - 16383, 32767, - 32767]"
  by (simp add: audio_int16_def astype_int16_def float32_exact trunc_def)

subsection \<open>Sample conversion\<close>

text \<open>
  Claim C1, as the encoder implements it. For every sample \<open>s\<close> in \<open>[-1.0, 1.0]\<close>
  of any sample sequence, the 16-bit value emitted is the float32 product
  \<open>s * 32767\<close> truncated towards zero. It lies between \<open>- 32767\<close> and 32767, so
  the cast is always defined and nothing is saturated, and it is less than 1 away from
  \<open>s * 32767\<close>.
\<close>

theorem pcm_truncates:
  assumes "i < length audio" and "\<bar>audio ! i\<bar> \<le> 1"
  shows "sint (audio_int16 E audio ! i) = trunc (float32 (audio ! i * 32767))
       \<and> - 32767 \<le> sint (audio_int16 E audio ! i)
       \<and> sint (audio_int16 E audio ! i) \<le> 32767
       \<and> \<bar>real_of_int (sint (audio_int16 E audio ! i)) - audio ! i * 32767\<bar> < 1"
  using pcm_sample [OF assms(2)] assms(1)
  by (simp add: audio_int16_nth)

text \<open>The one-sample sequence \<open>[0.25]\<close>.\<close>

theorem pcm_truncates_witness:
  "\<bar>[1 / 4 :: real] ! 0\<bar> \<le> 1
   \<and> sint (audio_int16 fake_env [1 / 4] ! 0) = trunc (float32 (1 / 4 * 32767))
   \<and> - 32767 \<le> sint (audio_int16 fake_env [1 / 4] ! 0)
   \<and> sint (audio_int16 fake_env [1 / 4] ! 0) \<le> 32767"
  using pcm_truncates [of 0 "[1 / 4]" fake_env] by simp

text \<open>
  The sample 0.25: the product 8191.75 is exact in float32, the encoder emits 8191, and
  the nearest integer is 8192.
\<close>

theorem pcm_not_rounded:
  "sint (audio_int16 fake_env [1 / 4] ! 0) = 8191
   \<and> max (- 32768) (min 32767 (round ((1 / 4 :: real) * 32767))) = 8192"
  by (simp add: audio_int16_def astype_int16_def float32_exact trunc_def round_def)

subsection \<open>Bytes of the WAV file\<close>

lemma length_le_bytes: "length (le_bytes n v) = n"
  by (induction n arbitrary: v) simp_all

lemma le_value_le_bytes:
  "0 \<le> v \<Longrightarrow> v < 256 ^ n \<Longrightarrow> le_value (le_bytes n v) = nat v"
proof (induction n arbitrary: v)
  case 0
  then show ?case by simp
next
  case (Suc n)
  have d: "0 \<le> v div 256" "v div 256 < 256 ^ n"
    using Suc.prems by (simp_all add: div_less_iff_less_mult mult.commute)
  have "unat (word_of_int v :: byte) = nat (v mod 256)"
    by (simp add: unat_eq_nat_uint uint_word_of_int take_bit_eq_mod)
  moreover have "le_value (le_bytes n (v div 256)) = nat (v div 256)"
    using d by (rule Suc.IH)
  ultimately show ?case
    using Suc.prems(1)
    by (simp add: nat_add_distrib nat_mult_distrib nat_div_distrib nat_mod_distrib)
qed

lemma word_cat_bytes:
  "word_cat (ucast (drop_bit 8 w) :: byte) (ucast w :: byte) = (w :: 16 word)"
  by (rule bit_word_eqI) (auto simp: bit_simps)

lemma frames16_tobytes: "frames16 (tobytes ws) = map sint ws"
  by (induction ws) (simp_all add: tobytes_def word_cat_bytes)

lemma length_tobytes: "length (tobytes ws) = 2 * length ws"
  by (induction ws) (simp_all add: tobytes_def)

text \<open>When the writer returns, and the file it returns.\<close>

lemma wave_write_mono16:
  "wave_write 1 2 sample_rate frames = Inr bs \<longleftrightarrow>
     0 < sample_rate \<and> sample_rate < 2 ^ 31 \<and> int (length frames) + 36 < 2 ^ 32 \<and>
     bs = bytes_of ''RIFF'' @ le_bytes 4 (36 + int (length frames)) @ bytes_of ''WAVE''
          @ bytes_of ''fmt '' @ le_bytes 4 16 @ le_bytes 2 1 @ le_bytes 2 1
          @ le_bytes 4 sample_rate @ le_bytes 4 (sample_rate * 2) @ le_bytes 2 2
          @ le_bytes 2 16 @ bytes_of ''data'' @ le_bytes 4 (int (length frames)) @ frames"
  by (auto simp: wave_write_def struct_pack_def Let_def)

lemma wav_decode_canonical:
  assumes "0 \<le> sample_rate" and "sample_rate < 2 ^ 32"
    and "int (length frames) + 36 < 2 ^ 32"
  shows "wav_decode
     (bytes_of ''RIFF'' @ le_bytes 4 (36 + int (length frames)) @ bytes_of ''WAVE''
      @ bytes_of ''fmt '' @ le_bytes 4 16 @ le_bytes 2 1 @ le_bytes 2 1
      @ le_bytes 4 sample_rate @ le_bytes 4 (sample_rate * 2) @ le_bytes 2 2
      @ le_bytes 2 16 @ bytes_of ''data'' @ le_bytes 4 (int (length frames)) @ frames)
     = Some \<lparr>channels = 1, bits = 16, rate = nat sample_rate, samples = frames16 frames\<rparr>"
proof -
  have l: "length (bytes_of ''RIFF'') = 4" "length (bytes_of ''WAVE'') = 4"
    "length (bytes_of ''fmt '') = 4" "length (bytes_of ''data'') = 4"
    by (simp_all add: bytes_of_def)
  show ?thesis
    unfolding wav_decode_def field_at_def
    using assms by (simp add: l length_le_bytes le_value_le_bytes)
qed

subsection \<open>Round trip\<close>

text \<open>
  Claim C6. For samples in \<open>[-1.0, 1.0]\<close>: the encoder returns a WAV file whenever
  the sample rate is positive and the rate and the data length fit their header fields;
  and whenever it returns one, decoding that file gives a mono, 16-bit stream at the same
  sample rate, with as many samples as the input, each of which, scaled back by
  \<open>1 / 32767\<close>, is less than one quantization step \<open>1 / 32767\<close> away from its
  input.
\<close>

theorem wav_round_trip:
  assumes "list_all (\<lambda>s. \<bar>s\<bar> \<le> 1) audio"
  shows "(0 < sample_rate \<and> sample_rate < 2 ^ 31 \<and> 2 * int (length audio) + 36 < 2 ^ 32 \<longrightarrow>
            (\<exists>bs. wav_buffer E audio sample_rate = Inr bs))
       \<and> (\<forall>bs. wav_buffer E audio sample_rate = Inr bs \<longrightarrow>
            (\<exists>w. wav_decode bs = Some w \<and> channels w = 1 \<and> bits w = 16
                 \<and> int (rate w) = sample_rate \<and> length (samples w) = length audio
                 \<and> (\<forall>i<length audio.
                       \<bar>real_of_int (samples w ! i) / 32767 - audio ! i\<bar> < 1 / 32767)))"
proof (intro conjI allI impI)
  assume "0 < sample_rate \<and> sample_rate < 2 ^ 31 \<and> 2 * int (length audio) + 36 < 2 ^ 32"
  then show "\<exists>bs. wav_buffer E audio sample_rate = Inr bs"
    unfolding wav_buffer_def wave_write_mono16
    by (simp add: length_tobytes audio_int16_def)
next
  fix bs
  assume "wav_buffer E audio sample_rate = Inr bs"
  then have w: "wave_write 1 2 sample_rate (tobytes (audio_int16 E audio)) = Inr bs"
    by (simp add: wav_buffer_def)
  let ?frames = "tobytes (audio_int16 E audio)"
  let ?w = "\<lparr>channels = 1, bits = 16, rate = nat sample_rate, samples = frames16 ?frames\<rparr>"
  from w have r: "0 < sample_rate" "sample_rate < 2 ^ 31" "int (length ?frames) + 36 < 2 ^ 32"
    and bs: "bs = bytes_of ''RIFF'' @ le_bytes 4 (36 + int (length ?frames)) @ bytes_of ''WAVE''
          @ bytes_of ''fmt '' @ le_bytes 4 16 @ le_bytes 2 1 @ le_bytes 2 1
          @ le_bytes 4 sample_rate @ le_bytes 4 (sample_rate * 2) @ le_bytes 2 2
          @ le_bytes 2 16 @ bytes_of ''data'' @ le_bytes 4 (int (length ?frames)) @ ?frames"
    by (simp_all only: wave_write_mono16)
  have d: "wav_decode bs = Some ?w"
    unfolding bs using r by (intro wav_decode_canonical) simp_all
  have s: "samples ?w = map sint (audio_int16 E audio)"
    by (simp add: frames16_tobytes)
  have e: "\<bar>real_of_int (samples ?w ! i) / 32767 - audio ! i\<bar> < 1 / 32767"
    if i: "i < length audio" for i
  proof -
    from assms i have "\<bar>audio ! i\<bar> \<le> 1"
      by (simp add: list_all_length)
    from pcm_sample(1,4) [OF this] i
    have "\<bar>real_of_int (samples ?w ! i) - audio ! i * 32767\<bar> < 1"
      by (simp add: frames16_tobytes audio_int16_nth length_audio_int16)
    then show ?thesis
      by (simp add: abs_less_iff field_simps)
  qed
  from d s e r(1) show "\<exists>w. wav_decode bs = Some w \<and> channels w = 1 \<and> bits w = 16
                 \<and> int (rate w) = sample_rate \<and> length (samples w) = length audio
                 \<and> (\<forall>i<length audio.
                       \<bar>real_of_int (samples w ! i) / 32767 - audio ! i\<bar> < 1 / 32767)"
    by (intro exI [of _ ?w]) (simp add: audio_int16_def)
qed

text \<open>The specification's example, \<open>[0.0, 0.5, -0.5, 1.0, -1.0]\<close> at 24000 Hz.\<close>

theorem wav_round_trip_witness:
  "list_all (\<lambda>s. \<bar>s\<bar> \<le> 1) [0, 1 / 2, - 1 / 2, 1, - 1 :: real]
   \<and> (\<exists>bs w. wav_buffer fake_env [0, 1 / 2, - 1 / 2, 1, - 1] 24000 = Inr bs
          \<and> wav_decode bs = Some w \<and> channels w = 1 \<and> bits w = 16 \<and> rate w = 24000
          \<and> length (samples w) = 5)"
proof -
  have h: "list_all (\<lambda>s. \<bar>s\<bar> \<le> 1) [0, 1 / 2, - 1 / 2, 1, - 1 :: real]"
    by simp
  from wav_round_trip [OF h, of 24000 fake_env] h show ?thesis
    by fastforce
qed

subsection \<open>A successful synthesis\<close>

text \<open>
  The body \<open>{"text": "hi"}\<close> with the test double: status 200, and the duration
  header is the text of the float \<open>5 / 24000\<close>.
\<close>

theorem duration_header_witness:
  "status (fst (synthesize fake_env module_globals (Inr (JObj [(''text'', JStr ''hi'')])))) = 200
   \<and> map_of (headers (fst (synthesize fake_env module_globals
        (Inr (JObj [(''text'', JStr ''hi'')]))))) ''X-Audio-Duration'' =
       Some (str_float fake_env (Finite (float64 (5 / 24000))))"
proof -
  let ?rq = "Inr (JObj [(''text'', JStr ''hi'')]) :: string + json"
  have c: "request_fields fake_env module_globals (JObj [(''text'', JStr ''hi'')]) =
      Continue (JStr ''hi'', ''af_bella'', Finite 1)"
    by (simp add: request_fields_obj module_globals_def)
  have k: "kokoro_create fake_env t v s = Inr (audio, sample_rate) \<Longrightarrow>
      audio = [0, 1 / 2, - 1 / 2, 1, - 1] \<and> sample_rate = 24000" for t v s audio sample_rate
    by (auto simp: fake_env_def split: if_splits)
  have k': "kokoro_create fake_env (JStr ''hi'') ''af_bella'' (Finite 1) =
      Inr ([0, 1 / 2, - 1 / 2, 1, - 1], 24000)"
    by (simp add: fake_env_def)
  have h1: "synthesize fake_env module_globals ?rq =
      (fst (synthesize fake_env module_globals ?rq), snd (synthesize fake_env module_globals ?rq))"
    by simp
  have h2: "status (fst (synthesize fake_env module_globals ?rq)) = 200"
    by (simp add: synthesize_def try_body_def c k' wav_response_def wav_buffer_def
        wave_write_def struct_pack_def duration_def length_tobytes length_audio_int16)
  from duration_header [OF h1 h2] k h2 show ?thesis
    by fastforce
qed

end
